theory Spec2Isabelle
  imports Main "HOL-Library.Word" "HOL-Library.Sublist"
begin

unbundle bit_operations_syntax

section \<open>Python text and bytes\<close>

text \<open>
  A Python \<open>str\<close> is a sequence of Unicode code points, a \<open>bytes\<close> object a sequence
  of octets. Code points are natural numbers here, so that the line boundaries and the
  white space beyond ASCII that \<open>str.splitlines\<close> and \<open>str.split\<close> recognise are part of
  the model.
\<close>

type_synonym ustr = "nat list"
type_synonym byte = "8 word"

definition lit :: "string \<Rightarrow> ustr" where
  "lit s = map of_char s"

definition bytes_of :: "string \<Rightarrow> byte list" where
  "bytes_of s = map of_char s"

subsection \<open>Exceptions\<close>

text \<open>
  A build-log record is a dictionary decoded from the engine's JSON stream; only its
  string-valued fields are read (\<open>log.get('stream', '')\<close>).
\<close>

type_synonym log = "ustr \<rightharpoonup> ustr"

datatype exn =
    BuildError ustr "log list"
  | OtherException ustr
  | UnicodeDecodeError
  | UnicodeEncodeError
  | IndexError
  | SystemExit int

text \<open>\<open>except Exception\<close> catches every exception above but \<open>SystemExit\<close>.\<close>

fun is_Exception :: "exn \<Rightarrow> bool" where
  "is_Exception (SystemExit n) = False"
| "is_Exception e = True"

subsection \<open>Library functions on text\<close>

text \<open>The code points at which \<open>str.splitlines\<close> breaks a line.\<close>

definition is_linebreak :: "nat \<Rightarrow> bool" where
  "is_linebreak c \<longleftrightarrow> c \<in> {0x0A, 0x0B, 0x0C, 0x0D, 0x1C, 0x1D, 0x1E, 0x85, 0x2028, 0x2029}"

text \<open>The code points that \<open>str.split()\<close> and \<open>str.strip()\<close> treat as white space.\<close>

definition is_space :: "nat \<Rightarrow> bool" where
  "is_space c \<longleftrightarrow>
     (0x09 \<le> c \<and> c \<le> 0x0D) \<or> (0x1C \<le> c \<and> c \<le> 0x20) \<or> c = 0x85 \<or> c = 0xA0 \<or>
     c = 0x1680 \<or> (0x2000 \<le> c \<and> c \<le> 0x200A) \<or> c = 0x2028 \<or> c = 0x2029 \<or>
     c = 0x202F \<or> c = 0x205F \<or> c = 0x3000"

text \<open>
  \<open>s.splitlines()\<close>: the text is cut at every line boundary, \<open>\r\n\<close> counting as one;
  the boundaries are dropped, and no empty line is produced after the last boundary.
  The first argument is the line read so far.
\<close>

fun splitlines_from :: "ustr \<Rightarrow> ustr \<Rightarrow> ustr list" where
  "splitlines_from cur [] = (if cur = [] then [] else [cur])"
| "splitlines_from cur [c] = (if is_linebreak c then [cur] else [cur @ [c]])"
| "splitlines_from cur (c # d # cs) =
     (if c = 0x0D \<and> d = 0x0A then cur # splitlines_from [] cs
      else if is_linebreak c then cur # splitlines_from [] (d # cs)
      else splitlines_from (cur @ [c]) (d # cs))"

definition splitlines :: "ustr \<Rightarrow> ustr list" where
  "splitlines s = splitlines_from [] s"

text \<open>
  \<open>s.split()\<close> with no separator: the maximal runs of characters that are not white
  space, in order. The first argument is the token read so far.
\<close>

fun split_ws_from :: "ustr \<Rightarrow> ustr \<Rightarrow> ustr list" where
  "split_ws_from cur [] = (if cur = [] then [] else [cur])"
| "split_ws_from cur (c # cs) =
     (if is_space c then (if cur = [] then split_ws_from [] cs else cur # split_ws_from [] cs)
      else split_ws_from (cur @ [c]) cs)"

definition split_ws :: "ustr \<Rightarrow> ustr list" where
  "split_ws s = split_ws_from [] s"

text \<open>
  \<open>s.split(sep)\<close> for a separator of one character: the pieces between the
  occurrences of the separator, empty pieces included; never the empty list.
\<close>

fun split_on_from :: "nat \<Rightarrow> ustr \<Rightarrow> ustr \<Rightarrow> ustr list" where
  "split_on_from sep cur [] = [cur]"
| "split_on_from sep cur (c # cs) =
     (if c = sep then cur # split_on_from sep [] cs else split_on_from sep (cur @ [c]) cs)"

definition split_on :: "nat \<Rightarrow> ustr \<Rightarrow> ustr list" where
  "split_on sep s = split_on_from sep [] s"

text \<open>\<open>sub in s\<close> on text: \<open>sub\<close> occurs in \<open>s\<close> as a contiguous substring.\<close>

fun py_in :: "ustr \<Rightarrow> ustr \<Rightarrow> bool" where
  "py_in sub [] = (sub = [])"
| "py_in sub (c # cs) = (prefix sub (c # cs) \<or> py_in sub cs)"

text \<open>\<open>s.strip()\<close>: white space removed at both ends.\<close>

definition strip :: "ustr \<Rightarrow> ustr" where
  "strip s = rev (dropWhile is_space (rev (dropWhile is_space s)))"

text \<open>\<open>sep.join(xs)\<close>.\<close>

fun join :: "ustr \<Rightarrow> ustr list \<Rightarrow> ustr" where
  "join sep [] = []"
| "join sep [x] = x"
| "join sep (x # y # xs) = x @ sep @ join sep (y # xs)"

text \<open>\<open>xs[0]\<close>: the first element, \<open>IndexError\<close> on the empty list.\<close>

fun index0 :: "'a list \<Rightarrow> exn + 'a" where
  "index0 [] = Inl IndexError"
| "index0 (x # xs) = Inr x"

text \<open>
  A list comprehension \<open>[f x for x in xs]\<close> whose element expression may raise: the
  first exception ends the evaluation.
\<close>

fun comprehension :: "('a \<Rightarrow> exn + 'b) \<Rightarrow> 'a list \<Rightarrow> exn + 'b list" where
  "comprehension f [] = Inr []"
| "comprehension f (x # xs) =
     (case f x of
        Inl e \<Rightarrow> Inl e
      | Inr y \<Rightarrow> (case comprehension f xs of Inl e \<Rightarrow> Inl e | Inr ys \<Rightarrow> Inr (y # ys)))"

subsection \<open>Decoding UTF-8\<close>

text \<open>
  \<open>b.decode('utf-8')\<close> in strict mode: the well-formed byte sequences of one to four
  bytes give a code point each; an overlong form (\<open>E0\<close> or \<open>F0\<close> with a second byte
  that is too small), a surrogate (\<open>ED\<close> with a second byte above \<open>9F\<close>), a value above
  \<open>0x10FFFF\<close> (\<open>F4\<close> with a second byte above \<open>8F\<close>), a stray continuation byte or a
  truncated sequence raises \<open>UnicodeDecodeError\<close>.
\<close>

definition is_cont :: "byte \<Rightarrow> bool" where
  "is_cont b \<longleftrightarrow> 0x80 \<le> b \<and> b \<le> 0xBF"

definition cons_ok :: "nat \<Rightarrow> exn + ustr \<Rightarrow> exn + ustr" where
  "cons_ok c r = (case r of Inl e \<Rightarrow> Inl e | Inr cs \<Rightarrow> Inr (c # cs))"

fun decode_utf8 :: "byte list \<Rightarrow> exn + ustr" where
  "decode_utf8 [] = Inr []"
| "decode_utf8 (b0 # bs) =
     (if b0 < 0x80 then cons_ok (unat b0) (decode_utf8 bs)
      else if 0xC2 \<le> b0 \<and> b0 \<le> 0xDF then
        (case bs of
           b1 # r \<Rightarrow>
             if is_cont b1
             then cons_ok (unat (b0 AND 0x1F) * 64 + unat (b1 AND 0x3F)) (decode_utf8 r)
             else Inl UnicodeDecodeError
         | _ \<Rightarrow> Inl UnicodeDecodeError)
      else if 0xE0 \<le> b0 \<and> b0 \<le> 0xEF then
        (case bs of
           b1 # b2 # r \<Rightarrow>
             if is_cont b1 \<and> is_cont b2 \<and> (0xE1 \<le> b0 \<or> 0xA0 \<le> b1)
                \<and> (b0 < 0xED \<or> 0xEE \<le> b0 \<or> b1 \<le> 0x9F)
             then cons_ok (unat (b0 AND 0x0F) * 4096 + unat (b1 AND 0x3F) * 64
                            + unat (b2 AND 0x3F)) (decode_utf8 r)
             else Inl UnicodeDecodeError
         | _ \<Rightarrow> Inl UnicodeDecodeError)
      else if 0xF0 \<le> b0 \<and> b0 \<le> 0xF4 then
        (case bs of
           b1 # b2 # b3 # r \<Rightarrow>
             if is_cont b1 \<and> is_cont b2 \<and> is_cont b3
                \<and> (0xF1 \<le> b0 \<or> 0x90 \<le> b1) \<and> (b0 < 0xF4 \<or> b1 \<le> 0x8F)
             then cons_ok (unat (b0 AND 0x07) * 262144 + unat (b1 AND 0x3F) * 4096
                            + unat (b2 AND 0x3F) * 64 + unat (b3 AND 0x3F)) (decode_utf8 r)
             else Inl UnicodeDecodeError
         | _ \<Rightarrow> Inl UnicodeDecodeError)
      else Inl UnicodeDecodeError)"

section \<open>Effects of the program\<close>

text \<open>
  What the program does to the world, in the order it does it: calls to the container
  engine (the \<open>docker\<close> client), the recipe file written to the build context (its name
  and its text) and lines written to the console. A printed line is a sequence of
  pieces; \<open>StrOf e\<close> stands for \<open>str(e)\<close>, which the library decides.
\<close>

type_synonym image = nat

datatype piece = Txt ustr | StrOf exn

datatype effect =
    ContainersCreate image
  | PutArchive ustr
  | Start
  | ExecRun ustr
  | Stop
  | Remove
  | WriteFile ustr ustr
  | ImagesBuild ustr ustr
  | Print "piece list"
  | PrintExc exn

text \<open>
  The answers of the container engine in one run: for each operation either the exception
  it raises or the value it returns. Every operation is called at most once in a run.
\<close>

record engine =
  r_create :: "exn option"
  r_put_archive :: "exn option"
  r_start :: "exn option"
  r_exec_run :: "exn + (int \<times> byte list)"
  r_stop :: "exn option"
  r_remove :: "exn option"
  r_build :: "exn + (image \<times> log list)"

text \<open>
  A computation takes the effects so far and returns them extended, together with its
  value or the exception that ended it.
\<close>

type_synonym 'a prog = "effect list \<Rightarrow> (exn + 'a) \<times> effect list"

definition return_prog :: "'a \<Rightarrow> 'a prog" where
  "return_prog x = (\<lambda>t. (Inr x, t))"

definition raise_prog :: "exn \<Rightarrow> 'a prog" where
  "raise_prog e = (\<lambda>t. (Inl e, t))"

definition bind_prog :: "'a prog \<Rightarrow> ('a \<Rightarrow> 'b prog) \<Rightarrow> 'b prog" where
  "bind_prog m f = (\<lambda>t. case m t of (Inl e, t') \<Rightarrow> (Inl e, t') | (Inr x, t') \<Rightarrow> f x t')"

definition lift_prog :: "exn + 'a \<Rightarrow> 'a prog" where
  "lift_prog r = (\<lambda>t. (r, t))"

definition emit :: "effect \<Rightarrow> unit prog" where
  "emit eff = (\<lambda>t. (Inr (), t @ [eff]))"

definition engine_call :: "effect \<Rightarrow> exn + 'a \<Rightarrow> 'a prog" where
  "engine_call eff r = (\<lambda>t. (r, t @ [eff]))"

definition raises :: "exn option \<Rightarrow> exn + unit" where
  "raises r = (case r of None \<Rightarrow> Inr () | Some e \<Rightarrow> Inl e)"

text \<open>\<open>try: m except Exception as e: h e\<close>.\<close>

definition try_except :: "'a prog \<Rightarrow> (exn \<Rightarrow> 'a prog) \<Rightarrow> 'a prog" where
  "try_except m h =
     (\<lambda>t. case m t of
        (Inl e, t') \<Rightarrow> if is_Exception e then h e t' else (Inl e, t')
      | (Inr x, t') \<Rightarrow> (Inr x, t'))"

text \<open>
  The exit status of the process when the outcome reaches the top level: \<open>sys.exit(n)\<close>
  gives the low eight bits of \<open>n\<close> (for \<open>n\<close> in the range of a C \<open>int\<close>), any other
  uncaught exception 1, a normal end 0.
\<close>

fun exit_status :: "exn + 'a \<Rightarrow> int" where
  "exit_status (Inr x) = 0"
| "exit_status (Inl (SystemExit n)) = n mod 256"
| "exit_status (Inl e) = 1"

section \<open>\<open>get_installed_packages\<close>\<close>

text \<open>
  Line 56: \<open>[line.split('/')[0] for line in text.splitlines() if '/' in line]\<close>.
\<close>

definition apt_packages :: "ustr \<Rightarrow> exn + ustr list" where
  "apt_packages text =
     comprehension (\<lambda>line. index0 (split_on 0x2F line))
       (filter (\<lambda>line. py_in (lit ''/'') line) (splitlines text))"

text \<open>
  Line 58: \<open>[line.split()[0] for line in text.splitlines() if '.' in line]\<close>.
\<close>

definition yum_packages :: "ustr \<Rightarrow> exn + ustr list" where
  "yum_packages text =
     comprehension (\<lambda>line. index0 (split_ws line))
       (filter (\<lambda>line. py_in (lit ''.'') line) (splitlines text))"

text \<open>
  Lines 53 to 60: the output of the probe is decoded and parsed by the branch that the
  marker found in it selects. A failure to decode raises where the text is first needed.
\<close>

definition parse_output :: "byte list \<Rightarrow> exn + ustr list" where
  "parse_output output =
     (case decode_utf8 output of
        Inl e \<Rightarrow> Inl e
      | Inr text \<Rightarrow>
          if py_in (lit ''apt'') text then apt_packages text
          else if py_in (lit ''yum'') text then yum_packages text
          else Inr [])"

text \<open>
  Lines 16 to 60. The container is created and the probe script uploaded outside the
  \<open>try\<close> block; start, exec, stop and remove are inside it, in this order, and its handler
  prints the exception and leaves with \<open>sys.exit(1)\<close>. Writing the script and the archive
  to the temporary directories is taken to succeed.
\<close>

definition get_installed_packages :: "engine \<Rightarrow> image \<Rightarrow> ustr list prog" where
  "get_installed_packages eng img =
     bind_prog (engine_call (ContainersCreate img) (raises (r_create eng))) (\<lambda>_.
     bind_prog (engine_call (PutArchive (lit ''/'')) (raises (r_put_archive eng))) (\<lambda>_.
     bind_prog
       (try_except
          (bind_prog (engine_call Start (raises (r_start eng))) (\<lambda>_.
           bind_prog (engine_call (ExecRun (lit ''/list_installed_packages.sh''))
                        (r_exec_run eng)) (\<lambda>(exit_code, output).
           bind_prog (engine_call Stop (raises (r_stop eng))) (\<lambda>_.
           bind_prog (engine_call Remove (raises (r_remove eng))) (\<lambda>_.
           return_prog output)))))
          (\<lambda>e.
           bind_prog (emit (Print [Txt (lit ''Exception: ''), StrOf e])) (\<lambda>_.
           bind_prog (emit (PrintExc e)) (\<lambda>_.
           bind_prog (emit (Print
              [Txt (lit ''Failed to list installed packages in the old image:'')])) (\<lambda>_.
           raise_prog (SystemExit 1))))))
       (\<lambda>output. lift_prog (parse_output output))))"

section \<open>\<open>generate_dockerfile\<close>\<close>

text \<open>
  Lines 63 to 79: the value of the f-string, whose first character is the line break
  after the opening quotes and whose lines keep the indentation of the source. The code
  point \<open>0x5C\<close> is the backslash, written doubled in the source.
\<close>

definition generate_dockerfile :: "ustr \<Rightarrow> ustr list \<Rightarrow> ustr" where
  "generate_dockerfile base_image packages =
     lit ''\<newline>    FROM '' @ base_image @ lit ''\<newline>\<newline>''
     @ lit ''    RUN apt-get update && '' @ [0x5C] @ lit ''\<newline>''
     @ lit ''        apt-get install -y '' @ [0x5C] @ lit ''\<newline>''
     @ lit ''        '' @ join (lit '' '') packages @ lit '' && '' @ [0x5C] @ lit ''\<newline>''
     @ lit ''        rm -rf /var/lib/apt/lists/*\<newline>''
     @ lit ''\<newline>''
     @ lit ''    # Configure the application environment (set environment variables, working directory, user permissions, etc.)\<newline>''
     @ lit ''    # ...\<newline>''
     @ lit ''\<newline>''
     @ lit ''    # Define the default command to run when the container is started\<newline>''
     @ lit ''    # ENTRYPOINT or CMD instruction (e.g., CMD [\"python\", \"app.py\"])\<newline>''
     @ lit ''    ''"

section \<open>\<open>build_container_image\<close>\<close>

text \<open>\<open>log.get('stream', '').strip()\<close>.\<close>

definition stream_line :: "log \<Rightarrow> ustr" where
  "stream_line l = strip (case l (lit ''stream'') of None \<Rightarrow> [] | Some s \<Rightarrow> s)"

text \<open>\<open>for log in logs: print(log.get('stream', '').strip())\<close>.\<close>

fun print_logs :: "log list \<Rightarrow> unit prog" where
  "print_logs [] = return_prog ()"
| "print_logs (l # ls) = bind_prog (emit (Print [Txt (stream_line l)])) (\<lambda>_. print_logs ls)"

text \<open>
  A text can be written to a file opened in text mode when the encoding of the file can
  encode it. The encoding is that of the locale, UTF-8 here, which encodes every code
  point up to \<open>0x10FFFF\<close> but the surrogates \<open>0xD800\<close> to \<open>0xDFFF\<close> (a string that
  comes from the command line can hold lone surrogates).
\<close>

definition utf8_encodable :: "ustr \<Rightarrow> bool" where
  "utf8_encodable s = list_all (\<lambda>c. c < 0xD800 \<or> (0xE000 \<le> c \<and> c \<le> 0x10FFFF)) s"

text \<open>
  Lines 84 to 86: \<open>with path.open('w') as f: f.write(text)\<close>. A text that cannot be
  encoded raises \<open>UnicodeEncodeError\<close>; otherwise the file holds the text. Creating the
  temporary directory and the file is taken to succeed.
\<close>

definition write_file :: "ustr \<Rightarrow> ustr \<Rightarrow> unit prog" where
  "write_file name text =
     (if utf8_encodable text then emit (WriteFile name text)
      else raise_prog UnicodeEncodeError)"

text \<open>
  Lines 82 to 102. The recipe is written to the temporary directory before anything is
  printed and outside the \<open>try\<close> block, so a failure of the write propagates. The build
  context is that directory, which holds the recipe as its only file, so the engine call
  carries the recipe and the tag. The first handler takes a \<open>BuildError\<close>, the second
  every other \<open>Exception\<close>. The function builds the image and prints the log; it runs
  no test of the image, although the comment of line 124 speaks of building and testing.
\<close>

definition build_container_image :: "engine \<Rightarrow> ustr \<Rightarrow> ustr \<Rightarrow> image prog" where
  "build_container_image eng dockerfile tag =
     bind_prog (write_file (lit ''Dockerfile'') dockerfile) (\<lambda>_.
     bind_prog (emit (Print [Txt (lit ''Building new container image: '' @ tag)])) (\<lambda>_.
     (\<lambda>t. case bind_prog (engine_call (ImagesBuild dockerfile tag) (r_build eng))
                    (\<lambda>(new_image, build_logs).
                     bind_prog (print_logs build_logs) (\<lambda>_. return_prog new_image)) t of
        (Inl (BuildError msg build_log), t') \<Rightarrow>
          bind_prog (emit (Print [Txt (lit ''Error building the new image: ''),
                                  StrOf (BuildError msg build_log)])) (\<lambda>_.
          bind_prog (print_logs build_log) (\<lambda>_.
          raise_prog (SystemExit 1))) t'
      | (Inl e, t') \<Rightarrow>
          if is_Exception e then
            bind_prog (emit (Print
               [Txt (lit ''An unexpected error occurred while building the new image: ''),
                StrOf e])) (\<lambda>_.
            raise_prog (SystemExit 1)) t'
          else (Inl e, t')
      | (Inr new_image, t') \<Rightarrow> (Inr new_image, t'))))"

section \<open>Runs of the engine\<close>

text \<open>
  The engine lets the whole probe through and the exec returns the bytes \<open>out\<close>, with
  any exit code.
\<close>

definition probe_ok :: "engine \<Rightarrow> byte list \<Rightarrow> bool" where
  "probe_ok eng out \<longleftrightarrow>
     r_create eng = None \<and> r_put_archive eng = None \<and> r_start eng = None \<and>
     map_sum id snd (r_exec_run eng) = Inr out \<and> r_stop eng = None \<and> r_remove eng = None"

text \<open>The engine calls of an extraction in which nothing raises.\<close>

definition probe_calls :: "image \<Rightarrow> effect list" where
  "probe_calls img =
     [ContainersCreate img, PutArchive (lit ''/''), Start,
      ExecRun (lit ''/list_installed_packages.sh''), Stop, Remove]"

text \<open>An engine that answers the probe with exit code 0 and the given output.\<close>

definition answering :: "byte list \<Rightarrow> engine" where
  "answering out =
     \<lparr>r_create = None, r_put_archive = None, r_start = None, r_exec_run = Inr (0, out),
      r_stop = None, r_remove = None, r_build = Inl (OtherException [])\<rparr>"

text \<open>An engine whose exec raises; every other operation would succeed.\<close>

definition exec_raising :: engine where
  "exec_raising =
     \<lparr>r_create = None, r_put_archive = None, r_start = None,
      r_exec_run = Inl (OtherException (lit ''exec failed'')),
      r_stop = None, r_remove = None, r_build = Inl (OtherException [])\<rparr>"

text \<open>
  An engine that answers the probe with the given output and whose remove raises.
\<close>

definition remove_raising :: "byte list \<Rightarrow> engine" where
  "remove_raising out =
     \<lparr>r_create = None, r_put_archive = None, r_start = None, r_exec_run = Inr (0, out),
      r_stop = None, r_remove = Some (OtherException (lit ''remove failed'')),
      r_build = Inl (OtherException [])\<rparr>"

text \<open>
  An engine whose build fails with a \<open>BuildError\<close> that carries three log records: the
  status of the pull, a step of the build, and the error.
\<close>

definition build_failing :: engine where
  "build_failing =
     \<lparr>r_create = None, r_put_archive = None, r_start = None, r_exec_run = Inr (0, []),
      r_stop = None, r_remove = None,
      r_build = Inl (BuildError (lit ''returned a non-zero code: 100'')
                  [[lit ''status'' \<mapsto> lit ''Pulling from library/debian''],
                   [lit ''stream'' \<mapsto> lit ''Step 1/2 : FROM debian\<newline>''],
                   [lit ''error'' \<mapsto> lit ''returned a non-zero code: 100'']])\<rparr>"

section \<open>The recipe template of the specification\<close>

text \<open>
  The template as the specification words it, a second definition to compare the source
  with: the six lines \<open>FROM <baseImage>\<close>, an empty line, \<open>RUN apt-get update &&\<close>
  and \<open>apt-get install -y\<close> (each ending in a backslash), the space-joined package list
  followed by \<open>&&\<close> and a backslash, and \<open>rm -rf /var/lib/apt/lists/*\<close>; the last
  three are indented by four spaces, and the lines are joined by line breaks.
\<close>

definition spec_template_lines :: "ustr \<Rightarrow> ustr list \<Rightarrow> ustr list" where
  "spec_template_lines base_image packages =
     [lit ''FROM '' @ base_image,
      [],
      lit ''RUN apt-get update && '' @ [0x5C],
      lit ''    apt-get install -y '' @ [0x5C],
      lit ''    '' @ join (lit '' '') packages @ lit '' && '' @ [0x5C],
      lit ''    rm -rf /var/lib/apt/lists/*'']"

definition spec_template :: "ustr \<Rightarrow> ustr list \<Rightarrow> ustr" where
  "spec_template base_image packages = join [0x0A] (spec_template_lines base_image packages)"

text \<open>
  What the f-string of the source holds after the install directive: an empty line and
  two blocks of comment lines with an empty line between them.
\<close>

definition comment_lines :: "ustr list" where
  "comment_lines =
     [[],
      lit ''# Configure the application environment (set environment variables, working directory, user permissions, etc.)'',
      lit ''# ...'',
      [],
      lit ''# Define the default command to run when the container is started'',
      lit ''# ENTRYPOINT or CMD instruction (e.g., CMD [\"python\", \"app.py\"])'']"

text \<open>A line as it stands in the f-string: four spaces deeper, empty lines left empty.\<close>

definition indented :: "ustr \<Rightarrow> ustr" where
  "indented line = (if line = [] then [] else lit ''    '' @ line)"

text \<open>
  The install directive of the source for an empty package list, from \<open>RUN\<close> to the end
  of its last line.
\<close>

definition empty_install_block :: ustr where
  "empty_install_block =
     lit ''RUN apt-get update && '' @ [0x5C] @ lit ''\<newline>''
     @ lit ''        apt-get install -y '' @ [0x5C] @ lit ''\<newline>''
     @ lit ''         && '' @ [0x5C] @ lit ''\<newline>''
     @ lit ''        rm -rf /var/lib/apt/lists/*''"

text \<open>The number of positions of \<open>s\<close> at which \<open>sub\<close> occurs.\<close>

fun count_occ :: "ustr \<Rightarrow> ustr \<Rightarrow> nat" where
  "count_occ sub [] = (if sub = [] then 1 else 0)"
| "count_occ sub (c # cs) = (if prefix sub (c # cs) then 1 else 0) + count_occ sub cs"

section \<open>Properties of the library functions\<close>

lemma py_in_sublist: "py_in sub s \<longleftrightarrow> sublist sub s"
  by (induction s) (simp_all add: sublist_Cons_right)

lemma py_in_char: "py_in [c] s \<longleftrightarrow> c \<in> set s"
  by (induction s) auto

lemma index0_split_on_from:
  "index0 (split_on_from sep cur s) = Inr (cur @ takeWhile (\<lambda>c. c \<noteq> sep) s)"
  by (induction s arbitrary: cur) simp_all

lemma index0_split_on: "index0 (split_on sep s) = Inr (takeWhile (\<lambda>c. c \<noteq> sep) s)"
  by (simp add: split_on_def index0_split_on_from)

lemma index0_split_ws_from_token:
  "cur \<noteq> [] \<Longrightarrow> index0 (split_ws_from cur s) = Inr (cur @ takeWhile (\<lambda>c. \<not> is_space c) s)"
  by (induction s arbitrary: cur) simp_all

lemma index0_split_ws_from_start:
  "index0 (split_ws_from [] s) =
     (case dropWhile is_space s of
        [] \<Rightarrow> Inl IndexError
      | c # cs \<Rightarrow> Inr (takeWhile (\<lambda>c. \<not> is_space c) (c # cs)))"
  by (induction s) (simp_all add: index0_split_ws_from_token)

lemma comprehension_total:
  "(\<And>x. x \<in> set xs \<Longrightarrow> f x = Inr (g x)) \<Longrightarrow> comprehension f xs = Inr (map g xs)"
  by (induction xs) simp_all

lemma py_in_char_fun: "py_in [c] = (\<lambda>s. c \<in> set s)"
  by (rule ext) (rule py_in_char)

lemma apt_packages_eq:
  "apt_packages text =
     Inr (map (takeWhile (\<lambda>c. c \<noteq> 0x2F)) (filter (\<lambda>line. 0x2F \<in> set line) (splitlines text)))"
proof -
  have "lit ''/'' = [0x2F]" by (simp add: lit_def)
  then show ?thesis
    unfolding apt_packages_def
    by (simp add: py_in_char_fun index0_split_on comprehension_total)
qed

lemma first_token:
  assumes "0x2E \<in> set line"
  shows "index0 (split_ws line) = Inr (takeWhile (\<lambda>c. \<not> is_space c) (dropWhile is_space line))"
proof -
  have "\<not> is_space 0x2E" by (simp add: is_space_def)
  with assms have "dropWhile is_space line \<noteq> []"
    by (metis dropWhile_eq_Nil_conv)
  then show ?thesis
    by (simp add: split_ws_def index0_split_ws_from_start split: list.splits)
qed

lemma yum_packages_eq:
  "yum_packages text =
     Inr (map (\<lambda>line. takeWhile (\<lambda>c. \<not> is_space c) (dropWhile is_space line))
            (filter (\<lambda>line. 0x2E \<in> set line) (splitlines text)))"
proof -
  have dot: "lit ''.'' = [0x2E]" by (simp add: lit_def)
  have "comprehension (\<lambda>line. index0 (split_ws line))
          (filter (\<lambda>line. 0x2E \<in> set line) (splitlines text)) =
        Inr (map (\<lambda>line. takeWhile (\<lambda>c. \<not> is_space c) (dropWhile is_space line))
               (filter (\<lambda>line. 0x2E \<in> set line) (splitlines text)))"
    by (rule comprehension_total) (simp add: first_token)
  then show ?thesis
    unfolding yum_packages_def by (simp add: dot py_in_char_fun)
qed

lemma splitlines_from_plain:
  "list_all (\<lambda>c. \<not> is_linebreak c) s \<Longrightarrow> rest \<noteq> [] \<Longrightarrow>
     splitlines_from cur (s @ rest) = splitlines_from (cur @ s) rest"
proof (induction s arbitrary: cur)
  case Nil
  then show ?case by simp
next
  case (Cons c s)
  from Cons.prems obtain d ds where tail: "s @ rest = d # ds"
    by (cases "s @ rest") auto
  from Cons.prems have "\<not> is_linebreak c" and "list_all (\<lambda>c. \<not> is_linebreak c) s"
    by simp_all
  moreover from \<open>\<not> is_linebreak c\<close> have "c \<noteq> 0x0D"
    by (auto simp: is_linebreak_def)
  ultimately show ?case
    using Cons.IH [of "cur @ [c]"] Cons.prems(2) by (simp add: tail)
qed

lemma count_occ_absent: "\<not> py_in sub s \<Longrightarrow> count_occ sub s = 0"
  by (induction s) auto

lemma prefix_a_b_before_newline:
  "prefix [97, 32, 98] (s @ 10 # rest) \<longleftrightarrow> prefix [97, 32, 98 :: nat] s"
proof (cases s)
  case Nil
  then show ?thesis by simp
next
  case (Cons x xs)
  show ?thesis
  proof (cases xs)
    case Nil
    with Cons show ?thesis by simp
  next
    case (Cons y ys)
    with \<open>s = x # xs\<close> show ?thesis by (cases ys) simp_all
  qed
qed

lemma count_occ_a_b_before_newline:
  "count_occ [97, 32, 98] (s @ 10 # rest) =
     count_occ [97, 32, 98] s + count_occ [97, 32, 98] (10 # rest)"
proof (induction s)
  case Nil
  then show ?case by simp
next
  case (Cons c s)
  have "prefix [97, 32, 98] ((c # s) @ 10 # rest) \<longleftrightarrow> prefix [97, 32, 98] (c # s)"
    by (rule prefix_a_b_before_newline)
  with Cons show ?case by simp
qed

section \<open>Properties of \<open>get_installed_packages\<close>\<close>

lemma get_installed_packages_ok:
  assumes "probe_ok eng out"
  shows "get_installed_packages eng img t = (parse_output out, t @ probe_calls img)"
proof -
  obtain code where "r_exec_run eng = Inr (code, out)"
    using assms by (cases "r_exec_run eng") (auto simp: probe_ok_def)
  then show ?thesis
    using assms
    by (simp add: get_installed_packages_def probe_ok_def probe_calls_def bind_prog_def
        engine_call_def raises_def try_except_def return_prog_def lift_prog_def)
qed

lemma remove_once_when_nothing_raises:
  assumes "probe_ok eng out"
  shows "count_list (snd (get_installed_packages eng img [])) Remove = 1"
  by (simp add: get_installed_packages_ok [OF assms] probe_calls_def)

lemma parse_apt:
  assumes "decode_utf8 out = Inr text" and "py_in (lit ''apt'') text"
  shows "parse_output out =
           Inr (map (takeWhile (\<lambda>c. c \<noteq> 0x2F))
                  (filter (\<lambda>line. 0x2F \<in> set line) (splitlines text)))"
  using assms by (simp add: parse_output_def apt_packages_eq)

lemma parse_yum:
  assumes "decode_utf8 out = Inr text" and "\<not> py_in (lit ''apt'') text"
    and "py_in (lit ''yum'') text"
  shows "parse_output out =
           Inr (map (\<lambda>line. takeWhile (\<lambda>c. \<not> is_space c) (dropWhile is_space line))
                  (filter (\<lambda>line. 0x2E \<in> set line) (splitlines text)))"
  using assms by (simp add: parse_output_def yum_packages_eq)

text \<open>
  Claim C1, as amended. When the probe runs through and its output, decoded, contains the
  marker \<open>apt\<close>, the inventory is the text before the first \<open>/\<close> of every line that
  contains a \<open>/\<close>, in the order of the lines; lines without \<open>/\<close> are skipped wherever
  they stand. Without the marker the branch is not taken.
\<close>

theorem apt_inventory:
  assumes "probe_ok eng out" and "decode_utf8 out = Inr text" and "py_in (lit ''apt'') text"
  shows "fst (get_installed_packages eng img t) =
           Inr (map (takeWhile (\<lambda>c. c \<noteq> 0x2F))
                  (filter (\<lambda>line. 0x2F \<in> set line) (splitlines text)))"
  using assms by (simp add: get_installed_packages_ok parse_apt)

text \<open>
  The three lines \<open>apt\<close>, \<open>curl/stable 7.68 amd64\<close>, \<open>not-a-package-line\<close> give the
  inventory \<open>["curl"]\<close>.
\<close>

theorem apt_inventory_witness:
  "probe_ok (answering (bytes_of ''apt\<newline>curl/stable 7.68 amd64\<newline>not-a-package-line''))
     (bytes_of ''apt\<newline>curl/stable 7.68 amd64\<newline>not-a-package-line'')
   \<and> decode_utf8 (bytes_of ''apt\<newline>curl/stable 7.68 amd64\<newline>not-a-package-line'')
       = Inr (lit ''apt\<newline>curl/stable 7.68 amd64\<newline>not-a-package-line'')
   \<and> py_in (lit ''apt'') (lit ''apt\<newline>curl/stable 7.68 amd64\<newline>not-a-package-line'')
   \<and> fst (get_installed_packages
            (answering (bytes_of ''apt\<newline>curl/stable 7.68 amd64\<newline>not-a-package-line'')) 0 [])
       = Inr [lit ''curl'']"
proof -
  let ?out = "bytes_of ''apt\<newline>curl/stable 7.68 amd64\<newline>not-a-package-line''"
  let ?text = "lit ''apt\<newline>curl/stable 7.68 amd64\<newline>not-a-package-line''"
  have ok: "probe_ok (answering ?out) ?out"
    by (simp add: probe_ok_def answering_def)
  have dec: "decode_utf8 ?out = Inr ?text"
    by (simp add: bytes_of_def lit_def cons_ok_def)
  have apt: "py_in (lit ''apt'') ?text"
    by (simp add: lit_def)
  have lines: "splitlines ?text =
                 [lit ''apt'', lit ''curl/stable 7.68 amd64'', lit ''not-a-package-line'']"
    by (simp add: lit_def splitlines_def is_linebreak_def)
  have "fst (get_installed_packages (answering ?out) 0 []) = Inr [lit ''curl'']"
    using apt_inventory [OF ok dec apt, of 0 "[]"] by (simp add: lines) (simp add: lit_def)
  with ok dec apt show ?thesis by blast
qed

text \<open>
  The two lines \<open>curl/stable 7.68 amd64\<close> and \<open>not-a-package-line\<close> alone contain no
  \<open>apt\<close>: the inventory is empty, not \<open>["curl"]\<close>.
\<close>

theorem apt_inventory_counterexample:
  "fst (get_installed_packages
          (answering (bytes_of ''curl/stable 7.68 amd64\<newline>not-a-package-line'')) 0 [])
     = Inr []
   \<and> fst (get_installed_packages
          (answering (bytes_of ''curl/stable 7.68 amd64\<newline>not-a-package-line'')) 0 [])
     \<noteq> Inr [lit ''curl'']"
proof -
  let ?out = "bytes_of ''curl/stable 7.68 amd64\<newline>not-a-package-line''"
  have ok: "probe_ok (answering ?out) ?out"
    by (simp add: probe_ok_def answering_def)
  have "parse_output ?out = Inr []"
    by (simp add: parse_output_def bytes_of_def lit_def cons_ok_def)
  then show ?thesis
    by (simp add: get_installed_packages_ok [OF ok])
qed

text \<open>
  Claim C4, as amended. When the probe runs through and its output, decoded, contains the
  marker \<open>yum\<close> and not the marker \<open>apt\<close>, the inventory is the first
  white-space-delimited token of every line that contains a \<open>.\<close>, in the order of the
  lines. The token keeps its architecture suffix.
\<close>

theorem yum_inventory:
  assumes "probe_ok eng out" and "decode_utf8 out = Inr text"
    and "\<not> py_in (lit ''apt'') text" and "py_in (lit ''yum'') text"
  shows "fst (get_installed_packages eng img t) =
           Inr (map (\<lambda>line. takeWhile (\<lambda>c. \<not> is_space c) (dropWhile is_space line))
                  (filter (\<lambda>line. 0x2E \<in> set line) (splitlines text)))"
  using assms by (simp add: get_installed_packages_ok parse_yum)

text \<open>
  The lines \<open>yum\<close> and \<open>bash.x86_64 5.0 installed\<close> give the inventory
  \<open>["bash.x86_64"]\<close>.
\<close>

theorem yum_inventory_witness:
  "probe_ok (answering (bytes_of ''yum\<newline>bash.x86_64 5.0 installed''))
     (bytes_of ''yum\<newline>bash.x86_64 5.0 installed'')
   \<and> decode_utf8 (bytes_of ''yum\<newline>bash.x86_64 5.0 installed'')
       = Inr (lit ''yum\<newline>bash.x86_64 5.0 installed'')
   \<and> \<not> py_in (lit ''apt'') (lit ''yum\<newline>bash.x86_64 5.0 installed'')
   \<and> py_in (lit ''yum'') (lit ''yum\<newline>bash.x86_64 5.0 installed'')
   \<and> fst (get_installed_packages (answering (bytes_of ''yum\<newline>bash.x86_64 5.0 installed'')) 0 [])
       = Inr [lit ''bash.x86_64'']"
proof -
  let ?out = "bytes_of ''yum\<newline>bash.x86_64 5.0 installed''"
  let ?text = "lit ''yum\<newline>bash.x86_64 5.0 installed''"
  have ok: "probe_ok (answering ?out) ?out"
    by (simp add: probe_ok_def answering_def)
  have dec: "decode_utf8 ?out = Inr ?text"
    by (simp add: bytes_of_def lit_def cons_ok_def)
  have apt: "\<not> py_in (lit ''apt'') ?text"
    by (simp add: lit_def)
  have yum: "py_in (lit ''yum'') ?text"
    by (simp add: lit_def)
  have lines: "splitlines ?text = [lit ''yum'', lit ''bash.x86_64 5.0 installed'']"
    by (simp add: lit_def splitlines_def is_linebreak_def)
  have "fst (get_installed_packages (answering ?out) 0 []) = Inr [lit ''bash.x86_64'']"
    using yum_inventory [OF ok dec apt yum, of 0 "[]"]
    by (simp add: lines) (simp add: lit_def is_space_def)
  with ok dec apt yum show ?thesis by blast
qed

text \<open>
  The single line \<open>bash.x86_64 5.0 installed\<close> contains neither marker: the inventory
  is empty, not \<open>["bash"]\<close>.
\<close>

theorem yum_inventory_counterexample:
  "fst (get_installed_packages (answering (bytes_of ''bash.x86_64 5.0 installed'')) 0 [])
     = Inr []
   \<and> fst (get_installed_packages (answering (bytes_of ''bash.x86_64 5.0 installed'')) 0 [])
     \<noteq> Inr [lit ''bash'']"
proof -
  let ?out = "bytes_of ''bash.x86_64 5.0 installed''"
  have ok: "probe_ok (answering ?out) ?out"
    by (simp add: probe_ok_def answering_def)
  have "parse_output ?out = Inr []"
    by (simp add: parse_output_def bytes_of_def lit_def cons_ok_def)
  then show ?thesis
    by (simp add: get_installed_packages_ok [OF ok])
qed

text \<open>
  Claim C5, as amended. When the engine runs the probe through (create, upload, start,
  exec, stop and remove succeed) and the output decodes as UTF-8 to a text that contains
  neither \<open>apt\<close> nor \<open>yum\<close>, the call returns the empty inventory: it raises nothing,
  and the engine has seen the six calls of a complete probe.
\<close>

theorem undetected_inventory_empty:
  assumes "probe_ok eng out" and "decode_utf8 out = Inr text"
    and "\<not> py_in (lit ''apt'') text" and "\<not> py_in (lit ''yum'') text"
  shows "get_installed_packages eng img t = (Inr [], t @ probe_calls img)"
  using assms by (simp add: get_installed_packages_ok parse_output_def)

text \<open>A yum listing without the word \<open>yum\<close> in it is such an output.\<close>

theorem undetected_inventory_empty_witness:
  "probe_ok (answering (bytes_of ''Installed Packages\<newline>bash.x86_64 5.0 installed''))
     (bytes_of ''Installed Packages\<newline>bash.x86_64 5.0 installed'')
   \<and> decode_utf8 (bytes_of ''Installed Packages\<newline>bash.x86_64 5.0 installed'')
       = Inr (lit ''Installed Packages\<newline>bash.x86_64 5.0 installed'')
   \<and> \<not> py_in (lit ''apt'') (lit ''Installed Packages\<newline>bash.x86_64 5.0 installed'')
   \<and> \<not> py_in (lit ''yum'') (lit ''Installed Packages\<newline>bash.x86_64 5.0 installed'')
   \<and> get_installed_packages
        (answering (bytes_of ''Installed Packages\<newline>bash.x86_64 5.0 installed'')) 7 []
       = (Inr [], probe_calls 7)"
proof -
  let ?out = "bytes_of ''Installed Packages\<newline>bash.x86_64 5.0 installed''"
  let ?text = "lit ''Installed Packages\<newline>bash.x86_64 5.0 installed''"
  have ok: "probe_ok (answering ?out) ?out"
    by (simp add: probe_ok_def answering_def)
  have dec: "decode_utf8 ?out = Inr ?text"
    by (simp add: bytes_of_def lit_def cons_ok_def)
  have apt: "\<not> py_in (lit ''apt'') ?text"
    by (simp add: lit_def)
  have yum: "\<not> py_in (lit ''yum'') ?text"
    by (simp add: lit_def)
  have "get_installed_packages (answering ?out) 7 [] = (Inr [], probe_calls 7)"
    using undetected_inventory_empty [OF ok dec apt yum, of 7 "[]"] by simp
  with ok dec apt yum show ?thesis by blast
qed

text \<open>
  Without these conditions an output that has neither marker does not give the empty
  inventory. The single byte \<open>0xFF\<close> contains neither \<open>apt\<close> nor \<open>yum\<close> and is not
  UTF-8: the decoding of line 55, which stands after the \<open>try\<close> block, raises
  \<open>UnicodeDecodeError\<close>. And when the output is the text \<open>Installed Packages\<close> but the
  remove raises, the handler leaves with \<open>sys.exit(1)\<close>.
\<close>

theorem undetected_inventory_empty_counterexample:
  "get_installed_packages (answering [0xFF]) 0 [] = (Inl UnicodeDecodeError, probe_calls 0)
   \<and> decode_utf8 (bytes_of ''Installed Packages'') = Inr (lit ''Installed Packages'')
   \<and> \<not> py_in (lit ''apt'') (lit ''Installed Packages'')
   \<and> \<not> py_in (lit ''yum'') (lit ''Installed Packages'')
   \<and> fst (get_installed_packages (remove_raising (bytes_of ''Installed Packages'')) 0 [])
       = Inl (SystemExit 1)"
proof -
  have ok: "probe_ok (answering [0xFF]) [0xFF]"
    by (simp add: probe_ok_def answering_def)
  have "parse_output [0xFF] = Inl UnicodeDecodeError"
    by (simp add: parse_output_def)
  then have bad_bytes:
    "get_installed_packages (answering [0xFF]) 0 [] = (Inl UnicodeDecodeError, probe_calls 0)"
    by (simp add: get_installed_packages_ok [OF ok])
  have dec: "decode_utf8 (bytes_of ''Installed Packages'') = Inr (lit ''Installed Packages'')"
    by (simp add: bytes_of_def lit_def cons_ok_def)
  have apt: "\<not> py_in (lit ''apt'') (lit ''Installed Packages'')"
    by (simp add: lit_def)
  have yum: "\<not> py_in (lit ''yum'') (lit ''Installed Packages'')"
    by (simp add: lit_def)
  have exits: "fst (get_installed_packages (remove_raising (bytes_of ''Installed Packages'')) 0 [])
                 = Inl (SystemExit 1)"
    by (simp add: get_installed_packages_def remove_raising_def bind_prog_def engine_call_def
        raises_def try_except_def return_prog_def raise_prog_def emit_def)
  from bad_bytes dec apt yum exits show ?thesis by blast
qed

text \<open>
  Claim C9. When the output contains \<open>apt\<close> and one of its lines begins with \<open>/\<close>, the
  call returns an inventory that has the empty string among its package names.
\<close>

theorem empty_package_name:
  assumes "probe_ok eng out" and "decode_utf8 out = Inr text" and "py_in (lit ''apt'') text"
    and "line \<in> set (splitlines text)" and "prefix (lit ''/'') line"
  shows "\<exists>pkgs. fst (get_installed_packages eng img t) = Inr pkgs \<and> [] \<in> set pkgs"
proof -
  from \<open>prefix (lit ''/'') line\<close> obtain rest where line: "line = 0x2F # rest"
    by (auto simp: lit_def prefix_def)
  then have "takeWhile (\<lambda>c. c \<noteq> 0x2F) line = []" and "0x2F \<in> set line"
    by simp_all
  with \<open>line \<in> set (splitlines text)\<close>
  have "[] \<in> set (map (takeWhile (\<lambda>c. c \<noteq> 0x2F))
                    (filter (\<lambda>line. 0x2F \<in> set line) (splitlines text)))"
    by (force simp: image_iff)
  then show ?thesis
    using assms(1-3) by (simp add: get_installed_packages_ok parse_apt)
qed

text \<open>The output \<open>apt\<close>, \<open>/x\<close> is of this kind.\<close>

theorem empty_package_name_witness:
  "probe_ok (answering (bytes_of ''apt\<newline>/x'')) (bytes_of ''apt\<newline>/x'')
   \<and> decode_utf8 (bytes_of ''apt\<newline>/x'') = Inr (lit ''apt\<newline>/x'')
   \<and> py_in (lit ''apt'') (lit ''apt\<newline>/x'')
   \<and> lit ''/x'' \<in> set (splitlines (lit ''apt\<newline>/x''))
   \<and> prefix (lit ''/'') (lit ''/x'')
   \<and> (\<exists>pkgs. fst (get_installed_packages (answering (bytes_of ''apt\<newline>/x'')) 0 []) = Inr pkgs
              \<and> [] \<in> set pkgs)"
proof -
  let ?out = "bytes_of ''apt\<newline>/x''"
  let ?text = "lit ''apt\<newline>/x''"
  have ok: "probe_ok (answering ?out) ?out"
    by (simp add: probe_ok_def answering_def)
  have dec: "decode_utf8 ?out = Inr ?text"
    by (simp add: bytes_of_def lit_def cons_ok_def)
  have apt: "py_in (lit ''apt'') ?text"
    by (simp add: lit_def)
  have line: "lit ''/x'' \<in> set (splitlines ?text)"
    by (simp add: lit_def splitlines_def is_linebreak_def)
  have pre: "prefix (lit ''/'') (lit ''/x'')"
    by (simp add: lit_def)
  show ?thesis
    using ok dec apt line pre empty_package_name [OF ok dec apt line pre, of 0 "[]"] by blast
qed

text \<open>
  Claim C10. A line that contains a \<open>.\<close> has at least one token, so \<open>line.split()[0]\<close>
  is in range; and the comprehension of the yum branch returns a list for every text.
\<close>

theorem yum_branch_total:
  "(py_in (lit ''.'') line \<longrightarrow> (\<exists>tok toks. split_ws line = tok # toks))
   \<and> (\<exists>pkgs. yum_packages text = Inr pkgs)"
proof
  show "py_in (lit ''.'') line \<longrightarrow> (\<exists>tok toks. split_ws line = tok # toks)"
  proof
    assume "py_in (lit ''.'') line"
    then have "0x2E \<in> set line" by (simp add: lit_def py_in_char)
    then have "index0 (split_ws line) \<noteq> Inl IndexError" by (simp add: first_token)
    then show "\<exists>tok toks. split_ws line = tok # toks"
      by (cases "split_ws line") simp_all
  qed
  show "\<exists>pkgs. yum_packages text = Inr pkgs"
    by (simp add: yum_packages_eq)
qed

text \<open>A line with leading white space, and a text that holds it.\<close>

theorem yum_branch_total_witness:
  "py_in (lit ''.'') (lit ''  bash.x86_64 5.0'')
   \<and> split_ws (lit ''  bash.x86_64 5.0'') = [lit ''bash.x86_64'', lit ''5.0'']
   \<and> yum_packages (lit ''yum\<newline>  bash.x86_64 5.0'') = Inr [lit ''bash.x86_64'']"
proof -
  have dot: "py_in (lit ''.'') (lit ''  bash.x86_64 5.0'')"
    by (simp add: lit_def)
  have toks: "split_ws (lit ''  bash.x86_64 5.0'') = [lit ''bash.x86_64'', lit ''5.0'']"
    by (simp add: lit_def split_ws_def is_space_def)
  have lines: "splitlines (lit ''yum\<newline>  bash.x86_64 5.0'') = [lit ''yum'', lit ''  bash.x86_64 5.0'']"
    by (simp add: lit_def splitlines_def is_linebreak_def)
  have "yum_packages (lit ''yum\<newline>  bash.x86_64 5.0'') = Inr [lit ''bash.x86_64'']"
    using yum_branch_total [of "lit ''  bash.x86_64 5.0''" "lit ''yum\<newline>  bash.x86_64 5.0''"]
    by (simp add: yum_packages_def lines toks) (simp add: lit_def)
  with dot toks show ?thesis by blast
qed

text \<open>
  Claim C2 fails on the code. When the exec raises, the handler prints the exception and
  leaves with \<open>sys.exit(1)\<close>: \<open>container.stop()\<close> and \<open>container.remove()\<close> stand after
  the exec inside the \<open>try\<close> block and are never reached, so the remove operation is
  invoked zero times and the container is left behind.
\<close>

theorem exec_raises_leaks_container:
  "get_installed_packages exec_raising 0 [] =
     (Inl (SystemExit 1),
      [ContainersCreate 0, PutArchive (lit ''/''), Start,
       ExecRun (lit ''/list_installed_packages.sh''),
       Print [Txt (lit ''Exception: ''), StrOf (OtherException (lit ''exec failed''))],
       PrintExc (OtherException (lit ''exec failed'')),
       Print [Txt (lit ''Failed to list installed packages in the old image:'')]])
   \<and> count_list (snd (get_installed_packages exec_raising 0 [])) Remove = 0"
  by (simp add: get_installed_packages_def exec_raising_def bind_prog_def engine_call_def
      raises_def try_except_def return_prog_def raise_prog_def emit_def)

section \<open>Properties of \<open>generate_dockerfile\<close>\<close>

lemma from_line_contained:
  "py_in (lit ''FROM '' @ base_image) (generate_dockerfile base_image packages)"
proof -
  have "\<exists>ss. generate_dockerfile base_image packages
          = lit ''\<newline>    '' @ (lit ''FROM '' @ base_image) @ ss"
    by (simp add: generate_dockerfile_def lit_def)
  then show ?thesis
    unfolding py_in_sublist sublist_def by blast
qed

lemma empty_install_block_contained:
  "py_in empty_install_block (generate_dockerfile base_image [])"
proof -
  have "\<exists>ss. generate_dockerfile base_image []
          = (lit ''\<newline>    FROM '' @ base_image @ lit ''\<newline>\<newline>    '') @ empty_install_block @ ss"
    by (simp add: generate_dockerfile_def empty_install_block_def lit_def)
  then show ?thesis
    unfolding py_in_sublist sublist_def by blast
qed

lemma from_line_is_line:
  assumes "list_all (\<lambda>c. \<not> is_linebreak c) base_image"
  shows "splitlines (generate_dockerfile base_image packages) ! 1 = lit ''    FROM '' @ base_image"
proof -
  obtain rest where g: "generate_dockerfile base_image packages
      = 0x0A # (lit ''    FROM '' @ base_image) @ 0x0A # 0x0A # rest"
    by (simp add: generate_dockerfile_def lit_def)
  have plain: "list_all (\<lambda>c. \<not> is_linebreak c) (lit ''    FROM '' @ base_image)"
    using assms by (simp add: lit_def is_linebreak_def)
  have "lit ''    FROM '' @ base_image \<noteq> []" by (simp add: lit_def)
  then obtain c cs where nonempty: "(lit ''    FROM '' @ base_image) @ 0x0A # 0x0A # rest = c # cs"
    by (cases "lit ''    FROM '' @ base_image") auto
  have "splitlines (generate_dockerfile base_image packages)
          = [] # splitlines_from [] ((lit ''    FROM '' @ base_image) @ 0x0A # 0x0A # rest)"
    unfolding splitlines_def g nonempty by (simp add: is_linebreak_def)
  also have "splitlines_from [] ((lit ''    FROM '' @ base_image) @ 0x0A # 0x0A # rest)
          = splitlines_from (lit ''    FROM '' @ base_image) (0x0A # 0x0A # rest)"
    using splitlines_from_plain [OF plain, of "0x0A # 0x0A # rest" "[]"] by simp
  also have "\<dots> = (lit ''    FROM '' @ base_image) # splitlines_from [] (0x0A # rest)"
    by (simp add: is_linebreak_def)
  finally show ?thesis by simp
qed

lemma a_b_once:
  assumes "\<not> py_in (lit ''a b'') base_image"
  shows "count_occ (lit ''a b'') (generate_dockerfile base_image [lit ''a'', lit ''b'']) = 1"
proof -
  have ab: "lit ''a b'' = [97, 32, 98]" by (simp add: lit_def)
  have "count_occ [97, 32, 98] base_image = 0"
    using assms by (simp add: ab count_occ_absent)
  then show ?thesis
    unfolding ab
    by (simp add: generate_dockerfile_def lit_def count_occ_a_b_before_newline)
qed

text \<open>
  Claim C3, as amended. The recipe is a line break, then the six lines of the template
  and the comment lines of the source, every non-empty line four spaces deeper and each
  followed by a line break, then four spaces. It holds the template line for line, but is
  not the bare template.
\<close>

theorem generate_dockerfile_layout:
  "generate_dockerfile base_image packages =
     [0x0A]
     @ concat (map (\<lambda>line. indented line @ [0x0A])
                 (spec_template_lines base_image packages @ comment_lines))
     @ lit ''    ''"
  by (simp add: generate_dockerfile_def spec_template_lines_def comment_lines_def
      indented_def lit_def)

text \<open>
  For the base image \<open>debian\<close> and the package \<open>curl\<close> the recipe differs from the
  template of the specification.
\<close>

theorem template_counterexample:
  "generate_dockerfile (lit ''debian'') [lit ''curl'']
     \<noteq> spec_template (lit ''debian'') [lit ''curl'']"
  by (simp add: generate_dockerfile_def spec_template_def spec_template_lines_def lit_def)

text \<open>
  Claim C7, as amended. For every base image the recipe for the empty package list
  contains the text \<open>FROM <base>\<close>, which is its second line behind four spaces when the
  base image has no line boundary in it, and the complete install directive with no
  package token. For every base image that does not itself contain \<open>a b\<close>, the recipe
  for the packages \<open>a\<close> and \<open>b\<close> contains \<open>a b\<close> exactly once.
\<close>

theorem dockerfile_contents:
  "py_in (lit ''FROM '' @ base_image) (generate_dockerfile base_image [])
   \<and> (list_all (\<lambda>c. \<not> is_linebreak c) base_image \<longrightarrow>
        splitlines (generate_dockerfile base_image []) ! 1 = lit ''    FROM '' @ base_image)
   \<and> py_in empty_install_block (generate_dockerfile base_image [])
   \<and> (\<not> py_in (lit ''a b'') base_image \<longrightarrow>
        count_occ (lit ''a b'') (generate_dockerfile base_image [lit ''a'', lit ''b'']) = 1)"
  using from_line_contained from_line_is_line empty_install_block_contained a_b_once
  by blast

text \<open>
The base image \<open>debian\<close> meets both conditions.
\<close>

theorem dockerfile_contents_witness:
  "list_all (\<lambda>c. \<not> is_linebreak c) (lit ''debian'')
   \<and> \<not> py_in (lit ''a b'') (lit ''debian'')
   \<and> py_in (lit ''FROM debian'') (generate_dockerfile (lit ''debian'') [])
   \<and> splitlines (generate_dockerfile (lit ''debian'') []) ! 1 = lit ''    FROM debian''
   \<and> py_in empty_install_block (generate_dockerfile (lit ''debian'') [])
   \<and> count_occ (lit ''a b'') (generate_dockerfile (lit ''debian'') [lit ''a'', lit ''b'']) = 1"
proof -
  have plain: "list_all (\<lambda>c. \<not> is_linebreak c) (lit ''debian'')"
    by (simp add: lit_def is_linebreak_def)
  have absent: "\<not> py_in (lit ''a b'') (lit ''debian'')"
    by (simp add: lit_def)
  have cat: "lit ''FROM '' @ lit ''debian'' = lit ''FROM debian''"
    "lit ''    FROM '' @ lit ''debian'' = lit ''    FROM debian''"
    by (simp_all add: lit_def)
  show ?thesis
    using dockerfile_contents [of "lit ''debian''"] plain absent by (simp add: cat)
qed

text \<open>
  No line of the recipe for \<open>debian\<close> is \<open>FROM debian\<close> itself, and for the base image
  \<open>a b\<close> the recipe contains \<open>a b\<close> twice.
\<close>

theorem dockerfile_contents_counterexample:
  "lit ''FROM debian'' \<notin> set (splitlines (generate_dockerfile (lit ''debian'') []))
   \<and> count_occ (lit ''a b'') (generate_dockerfile (lit ''a b'') [lit ''a'', lit ''b'']) = 2"
  by (simp add: generate_dockerfile_def lit_def splitlines_def is_linebreak_def)

section \<open>Properties of \<open>build_container_image\<close>\<close>

lemma print_logs_trace:
  "print_logs ls t = (Inr (), t @ map (\<lambda>l. Print [Txt (stream_line l)]) ls)"
  by (induction ls arbitrary: t) (simp_all add: return_prog_def bind_prog_def emit_def)

text \<open>
  Claim C8, as amended. When the recipe can be written and the engine answers the build
  with a \<open>BuildError\<close>, the function writes the recipe, prints the announcement, calls
  the build once, prints the error, then prints one line for every record of the error's
  build log, in order: the stripped \<open>stream\<close> field of the record, and an empty line for
  a record that has no such field. It ends with \<open>sys.exit(1)\<close>, so the process leaves
  with status 1 and no image is returned.
\<close>

theorem build_error_exits:
  assumes "utf8_encodable dockerfile" and "r_build eng = Inl (BuildError msg build_log)"
  shows "build_container_image eng dockerfile tag t =
           (Inl (SystemExit 1),
            t @ [WriteFile (lit ''Dockerfile'') dockerfile,
                 Print [Txt (lit ''Building new container image: '' @ tag)],
                 ImagesBuild dockerfile tag,
                 Print [Txt (lit ''Error building the new image: ''),
                        StrOf (BuildError msg build_log)]]
              @ map (\<lambda>l. Print [Txt (stream_line l)]) build_log)
         \<and> exit_status (fst (build_container_image eng dockerfile tag t)) = 1"
  using assms
  by (simp add: build_container_image_def write_file_def bind_prog_def engine_call_def
      emit_def raise_prog_def print_logs_trace)

text \<open>
  A build error with a status record, a stream record and an error record: after the
  four effects that every failing build has, three lines are printed.
\<close>

theorem build_error_exits_witness:
  "utf8_encodable (lit ''FROM debian'')
   \<and> r_build build_failing =
     Inl (BuildError (lit ''returned a non-zero code: 100'')
            [[lit ''status'' \<mapsto> lit ''Pulling from library/debian''],
             [lit ''stream'' \<mapsto> lit ''Step 1/2 : FROM debian\<newline>''],
             [lit ''error'' \<mapsto> lit ''returned a non-zero code: 100'']])
   \<and> fst (build_container_image build_failing (lit ''FROM debian'') (lit ''new:1'') []) =
       Inl (SystemExit 1)
   \<and> drop 4 (snd (build_container_image build_failing (lit ''FROM debian'') (lit ''new:1'') [])) =
       [Print [Txt []], Print [Txt (lit ''Step 1/2 : FROM debian'')], Print [Txt []]]"
proof -
  have enc: "utf8_encodable (lit ''FROM debian'')"
    by (simp add: utf8_encodable_def lit_def)
  have b: "r_build build_failing =
     Inl (BuildError (lit ''returned a non-zero code: 100'')
            [[lit ''status'' \<mapsto> lit ''Pulling from library/debian''],
             [lit ''stream'' \<mapsto> lit ''Step 1/2 : FROM debian\<newline>''],
             [lit ''error'' \<mapsto> lit ''returned a non-zero code: 100'']])"
    by (simp add: build_failing_def)
  have s0: "stream_line [lit ''status'' \<mapsto> lit ''Pulling from library/debian''] = []"
    by (simp add: stream_line_def strip_def lit_def)
  have s1: "stream_line [lit ''stream'' \<mapsto> lit ''Step 1/2 : FROM debian\<newline>'']
              = lit ''Step 1/2 : FROM debian''"
    by (simp add: stream_line_def strip_def lit_def is_space_def)
  have s2: "stream_line [lit ''error'' \<mapsto> lit ''returned a non-zero code: 100''] = []"
    by (simp add: stream_line_def strip_def lit_def)
  show ?thesis
    using build_error_exits [OF enc b, of "lit ''new:1''" "[]"]
    by (simp add: enc b s0 s1 s2)
qed

text \<open>
  Not every log line of the failure is printed. For the same build error the status
  record \<open>Pulling from library/debian\<close> and the error record leave an empty line each:
  the text of the status record is printed nowhere.
\<close>

theorem build_error_exits_counterexample:
  "drop 4 (snd (build_container_image build_failing (lit ''FROM debian'') (lit ''new:1'') []))
     = [Print [Txt []], Print [Txt (lit ''Step 1/2 : FROM debian'')], Print [Txt []]]
   \<and> Print [Txt (lit ''Pulling from library/debian'')]
       \<notin> set (snd (build_container_image build_failing (lit ''FROM debian'') (lit ''new:1'') []))"
proof -
  have enc: "utf8_encodable (lit ''FROM debian'')"
    by (simp add: utf8_encodable_def lit_def)
  have s0: "stream_line [lit ''status'' \<mapsto> lit ''Pulling from library/debian''] = []"
    by (simp add: stream_line_def strip_def lit_def)
  have s1: "stream_line [lit ''stream'' \<mapsto> lit ''Step 1/2 : FROM debian\<newline>'']
              = lit ''Step 1/2 : FROM debian''"
    by (simp add: stream_line_def strip_def lit_def is_space_def)
  have s2: "stream_line [lit ''error'' \<mapsto> lit ''returned a non-zero code: 100''] = []"
    by (simp add: stream_line_def strip_def lit_def)
  have ne: "lit ''Pulling from library/debian'' \<noteq> lit ''Step 1/2 : FROM debian''"
    "lit ''Pulling from library/debian'' \<noteq> lit ''Building new container image: '' @ lit ''new:1''"
    "lit ''Pulling from library/debian'' \<noteq> []"
    by (simp_all add: lit_def)
  have run: "snd (build_container_image build_failing (lit ''FROM debian'') (lit ''new:1'') []) =
      [WriteFile (lit ''Dockerfile'') (lit ''FROM debian''),
       Print [Txt (lit ''Building new container image: '' @ lit ''new:1'')],
       ImagesBuild (lit ''FROM debian'') (lit ''new:1''),
       Print [Txt (lit ''Error building the new image: ''),
              StrOf (BuildError (lit ''returned a non-zero code: 100'')
                [[lit ''status'' \<mapsto> lit ''Pulling from library/debian''],
                 [lit ''stream'' \<mapsto> lit ''Step 1/2 : FROM debian\<newline>''],
                 [lit ''error'' \<mapsto> lit ''returned a non-zero code: 100'']])],
       Print [Txt []], Print [Txt (lit ''Step 1/2 : FROM debian'')], Print [Txt []]]"
    by (simp add: build_container_image_def write_file_def enc build_failing_def bind_prog_def
        engine_call_def emit_def raise_prog_def print_logs_trace s0 s1 s2)
  show ?thesis
    unfolding run by (simp add: ne)
qed

end
